theory Spec2Isabelle
  imports Complex_Main
begin

section \<open>JavaScript values\<close>

text \<open>
  The dashboard (\<^verbatim>\<open>src/App.jsx\<close>) stores whatever axios parsed from a JSON body, and
  the load script (\<^verbatim>\<open>load_test.js\<close>, the second part of \<^verbatim>\<open>src/todo.md\<close>) inspects
  the value \<^verbatim>\<open>JSON.parse\<close> returned. Both are untyped, so the model keeps the JSON
  value kinds and adds \<^verbatim>\<open>undefined\<close>, which a missing property reads as.
  Numbers are the finite numbers a JSON text denotes; comparing two of them is exact
  in IEEE arithmetic, so they are \<^typ>\<open>real\<close> here. An object is its property
  list, looked up by name.
\<close>

datatype jsval =
    Undefined
  | Null
  | Bool bool
  | Num real
  | Str string
  | Arr "jsval list"
  | Obj "(string \<times> jsval) list"

datatype js_error = TypeError

text \<open>
  \<^verbatim>\<open>v.k\<close>: reading a property of \<^verbatim>\<open>null\<close> or \<^verbatim>\<open>undefined\<close> throws a
  TypeError; a property an object does not have is \<^verbatim>\<open>undefined\<close>. Arrays and
  strings have \<^verbatim>\<open>length\<close>; none of the other names the program reads
  (\<^verbatim>\<open>forecasts\<close>, \<^verbatim>\<open>date\<close>, \<^verbatim>\<open>demand_forecast\<close>, \<^verbatim>\<open>mae_demand\<close>, ...) is
  a property of an array, a string, a number or a boolean.
\<close>

definition own :: "(string \<times> jsval) list \<Rightarrow> string \<Rightarrow> jsval" where
  "own fs k = (case map_of fs k of None \<Rightarrow> Undefined | Some v \<Rightarrow> v)"

fun getProp :: "jsval \<Rightarrow> string \<Rightarrow> js_error + jsval" where
  "getProp Undefined k = Inl TypeError"
| "getProp Null k = Inl TypeError"
| "getProp (Obj fs) k = Inr (own fs k)"
| "getProp (Arr xs) k = Inr (if k = ''length'' then Num (real (length xs)) else Undefined)"
| "getProp (Str s) k = Inr (if k = ''length'' then Num (real (length s)) else Undefined)"
| "getProp (Bool b) k = Inr Undefined"
| "getProp (Num n) k = Inr Undefined"

text \<open>Truthiness, as \<^verbatim>\<open>!v\<close>, \<^verbatim>\<open>v && e\<close> and \<^verbatim>\<open>{v && (...)}\<close> test it.\<close>

fun truthy :: "jsval \<Rightarrow> bool" where
  "truthy Undefined = False"
| "truthy Null = False"
| "truthy (Bool b) = b"
| "truthy (Num n) = (n \<noteq> 0)"
| "truthy (Str s) = (s \<noteq> [])"
| "truthy (Arr xs) = True"
| "truthy (Obj fs) = True"

section \<open>Accuracy badge\<close>

text \<open>
  \<^verbatim>\<open>getAccuracyBadge\<close> (App.jsx, lines 183-187) returns one of three
  \<^verbatim>\<open>Badge\<close> elements. The element is its class name and its tier; the tier stands
  for the element's text (\<^verbatim>\<open>Excellent\<close>, \<^verbatim>\<open>Good\<close>, \<^verbatim>\<open>Needs Improvement\<close>, each
  followed by its bound in parentheses).
\<close>

datatype tier = Excellent | Good | Needs_Improvement

datatype badge = Badge string tier

fun badge_tier :: "badge \<Rightarrow> tier" where
  "badge_tier (Badge c t) = t"

definition getAccuracyBadge :: "real \<Rightarrow> badge" where
  "getAccuracyBadge mae =
     (if mae \<le> 5 then Badge ''bg-green-500'' Excellent
      else if mae \<le> 10 then Badge ''bg-yellow-500'' Good
      else Badge ''bg-red-500'' Needs_Improvement)"

section \<open>Chart series\<close>

text \<open>
  \<^verbatim>\<open>createForecastChart\<close> and \<^verbatim>\<open>createPriceChart\<close> (App.jsx, lines 85-181) build
  the Plotly description of a band: a centre line, the upper bound and the lower
  bound, over one date axis. \<^verbatim>\<open>forecasts.map(f => f.k)\<close> throws a TypeError when
  \<^verbatim>\<open>forecasts\<close> is not an array (it has no \<^verbatim>\<open>map\<close> method) and when an element is
  \<^verbatim>\<open>null\<close>; an element without the property contributes \<^verbatim>\<open>undefined\<close>.
\<close>

fun map_prop :: "string \<Rightarrow> jsval list \<Rightarrow> js_error + jsval list" where
  "map_prop k [] = Inr []"
| "map_prop k (f # fs) =
     (case getProp f k of
        Inl e \<Rightarrow> Inl e
      | Inr v \<Rightarrow> (case map_prop k fs of Inl e \<Rightarrow> Inl e | Inr vs \<Rightarrow> Inr (v # vs)))"

fun array_map :: "jsval \<Rightarrow> string \<Rightarrow> js_error + jsval list" where
  "array_map (Arr xs) k = map_prop k xs"
| "array_map v k = Inl TypeError"

record trace =
  trace_x :: "jsval list"
  trace_y :: "jsval list"
  trace_type :: string
  trace_mode :: string
  trace_name :: string
  line_color :: string
  line_width :: nat
  line_dash :: "string option"
  trace_fill :: "string option"
  fillcolor :: "string option"
  showlegend :: "bool option"

record layout =
  title :: string
  xaxis_title :: string
  yaxis_title :: string
  height :: nat
  margin_trbl :: "nat \<times> nat \<times> nat \<times> nat"

record chart =
  chart_data :: "trace list"
  chart_layout :: layout

text \<open>The three traces of a band, in the order of the \<^verbatim>\<open>data\<close> array.\<close>

definition band :: "string \<Rightarrow> string \<Rightarrow> string \<Rightarrow> jsval list \<Rightarrow> jsval list \<Rightarrow> jsval list
    \<Rightarrow> jsval list \<Rightarrow> trace list" where
  "band nm color shade dates center upper lower =
     [\<lparr>trace_x = dates, trace_y = center, trace_type = ''scatter'', trace_mode = ''lines'',
        trace_name = nm, line_color = color, line_width = 3, line_dash = None,
        trace_fill = None, fillcolor = None, showlegend = None\<rparr>,
      \<lparr>trace_x = dates, trace_y = upper, trace_type = ''scatter'', trace_mode = ''lines'',
        trace_name = ''Upper Bound'', line_color = color, line_width = 1,
        line_dash = Some ''dot'', trace_fill = None, fillcolor = None,
        showlegend = Some False\<rparr>,
      \<lparr>trace_x = dates, trace_y = lower, trace_type = ''scatter'', trace_mode = ''lines'',
        trace_name = ''Lower Bound'', line_color = color, line_width = 1,
        line_dash = Some ''dot'', trace_fill = Some ''tonexty'', fillcolor = Some shade,
        showlegend = Some False\<rparr>]"

text \<open>Sequencing of steps that may throw: the first exception ends the function.\<close>

definition and_then :: "js_error + 'a \<Rightarrow> ('a \<Rightarrow> js_error + 'b) \<Rightarrow> js_error + 'b" where
  "and_then r f = (case r of Inl e \<Rightarrow> Inl e | Inr v \<Rightarrow> f v)"

definition createForecastChart :: "jsval \<Rightarrow> string \<Rightarrow> js_error + chart option" where
  "createForecastChart forecastData selectedItem =
     (if \<not> truthy forecastData then Inr None
      else and_then (getProp forecastData ''forecasts'') (\<lambda>forecasts.
        if \<not> truthy forecasts then Inr None
        else
          and_then (array_map forecasts ''date'') (\<lambda>dates.
          and_then (array_map forecasts ''demand_forecast'') (\<lambda>demandForecast.
          and_then (array_map forecasts ''demand_lower'') (\<lambda>demandLower.
          and_then (array_map forecasts ''demand_upper'') (\<lambda>demandUpper.
            Inr (Some
              \<lparr>chart_data = band ''Demand Forecast'' ''#3b82f6'' ''rgba(59, 130, 246, 0.1)''
                  dates demandForecast demandUpper demandLower,
               chart_layout = \<lparr>title = ''Demand Forecast - '' @ selectedItem,
                  xaxis_title = ''Date'', yaxis_title = ''Demand'', height = 400,
                  margin_trbl = (50, 50, 50, 50)\<rparr>\<rparr>)))))))"

definition createPriceChart :: "jsval \<Rightarrow> string \<Rightarrow> js_error + chart option" where
  "createPriceChart forecastData selectedItem =
     (if \<not> truthy forecastData then Inr None
      else and_then (getProp forecastData ''forecasts'') (\<lambda>forecasts.
        if \<not> truthy forecasts then Inr None
        else
          and_then (array_map forecasts ''date'') (\<lambda>dates.
          and_then (array_map forecasts ''price_forecast'') (\<lambda>priceForecast.
          and_then (array_map forecasts ''price_lower'') (\<lambda>priceLower.
          and_then (array_map forecasts ''price_upper'') (\<lambda>priceUpper.
            Inr (Some
              \<lparr>chart_data = band ''Price Forecast'' ''#10b981'' ''rgba(16, 185, 129, 0.1)''
                  dates priceForecast priceUpper priceLower,
               chart_layout = \<lparr>title = ''Price Forecast - '' @ selectedItem,
                  xaxis_title = ''Date'', yaxis_title = ''Price ($)'', height = 400,
                  margin_trbl = (50, 50, 50, 50)\<rparr>\<rparr>)))))))"

section \<open>Dashboard state and its handlers\<close>

text \<open>
  The component's state (App.jsx, lines 14-22), without the item list, which only the
  selector reads. The mount effect (lines 25-40) that fetches the list makes the first
  selection through the setter the selector uses; it is not modelled beyond that.
  \<^verbatim>\<open>forecastData\<close>, \<^verbatim>\<open>costAnalysis\<close> and \<^verbatim>\<open>metrics\<close> start as
  \<^verbatim>\<open>null\<close> and later hold \<^verbatim>\<open>response.data\<close>; \<^verbatim>\<open>error\<close> is \<^verbatim>\<open>null\<close> or a
  message.
\<close>

record State =
  selectedItem :: string
  forecastData :: jsval
  costAnalysis :: jsval
  metrics :: jsval
  loading :: bool
  error :: "string option"
  forecastDays :: nat
  modelType :: string

definition initial :: State where
  "initial = \<lparr>selectedItem = [], forecastData = Null, costAnalysis = Null, metrics = Null,
     loading = False, error = None, forecastDays = 90, modelType = ''prophet''\<rparr>"

text \<open>
  The three GET requests of a reload, by the parts of their URLs that vary, and what
  \<^verbatim>\<open>await axios.get(...)\<close> does: it resumes with a response whose \<^verbatim>\<open>data\<close> is the
  parsed body, or throws (network failure, status outside 2xx).
\<close>

datatype request =
    GetForecast string nat string
  | GetCostAnalysis string
  | GetMetrics string string

datatype axios_result = Resolved jsval | Rejected

text \<open>
  An async function runs up to its \<^verbatim>\<open>await\<close> when it is called and the rest when
  the request settles. \<^verbatim>\<open>loadForecastData\<close> (lines 51-65) is the two halves below;
  \<^verbatim>\<open>loadCostAnalysis\<close> and \<^verbatim>\<open>loadMetrics\<close> (lines 67-83) change no state before
  their \<^verbatim>\<open>await\<close>. None of the three compares the settled request with the current
  selection.
\<close>

definition loadForecastData_call :: "State \<Rightarrow> State" where
  "loadForecastData_call s = s\<lparr>loading := True, error := None\<rparr>"

definition loadForecastData_settled :: "axios_result \<Rightarrow> State \<Rightarrow> State" where
  "loadForecastData_settled r s =
     (case r of
        Resolved d \<Rightarrow> s\<lparr>forecastData := d, loading := False\<rparr>
      | Rejected \<Rightarrow> s\<lparr>error := Some ''Failed to load forecast data'', loading := False\<rparr>)"

definition loadCostAnalysis_settled :: "axios_result \<Rightarrow> State \<Rightarrow> State" where
  "loadCostAnalysis_settled r s =
     (case r of Resolved d \<Rightarrow> s\<lparr>costAnalysis := d\<rparr> | Rejected \<Rightarrow> s)"

definition loadMetrics_settled :: "axios_result \<Rightarrow> State \<Rightarrow> State" where
  "loadMetrics_settled r s =
     (case r of Resolved d \<Rightarrow> s\<lparr>metrics := d\<rparr> | Rejected \<Rightarrow> s)"

text \<open>
  The effect of lines 43-49 runs after a render in which \<^verbatim>\<open>selectedItem\<close>,
  \<^verbatim>\<open>forecastDays\<close> or \<^verbatim>\<open>modelType\<close> changed, and starts the three loads when an
  item is selected. Setting a state variable to the value it has causes no render.
\<close>

definition reload :: "State \<Rightarrow> State" where
  "reload s = (if selectedItem s \<noteq> [] then loadForecastData_call s else s)"

definition reload_requests :: "State \<Rightarrow> request list" where
  "reload_requests s =
     (if selectedItem s \<noteq> []
      then [GetForecast (selectedItem s) (forecastDays s) (modelType s),
            GetCostAnalysis (selectedItem s),
            GetMetrics (selectedItem s) (modelType s)]
      else [])"

text \<open>
  What happens to the component: the three selectors (lines 214, 228, 243), the
  \<^verbatim>\<open>Update Forecast\<close> button (line 255, disabled while loading or without an item),
  and a request settling. Requests settle in any order.
\<close>

datatype event =
    SelectItem string
  | SetForecastDays nat
  | SetModelType string
  | UpdateForecast
  | Settled request axios_result

fun step :: "event \<Rightarrow> State \<Rightarrow> State" where
  "step (SelectItem v) s = (if v = selectedItem s then s else reload (s\<lparr>selectedItem := v\<rparr>))"
| "step (SetForecastDays n) s = (if n = forecastDays s then s else reload (s\<lparr>forecastDays := n\<rparr>))"
| "step (SetModelType m) s = (if m = modelType s then s else reload (s\<lparr>modelType := m\<rparr>))"
| "step UpdateForecast s =
     (if loading s \<or> selectedItem s = [] then s else loadForecastData_call s)"
| "step (Settled (GetForecast i d m) r) s = loadForecastData_settled r s"
| "step (Settled (GetCostAnalysis i) r) s = loadCostAnalysis_settled r s"
| "step (Settled (GetMetrics i m) r) s = loadMetrics_settled r s"

text \<open>The requests an event sends.\<close>

fun sends :: "event \<Rightarrow> State \<Rightarrow> request list" where
  "sends (SelectItem v) s =
     (if v = selectedItem s then [] else reload_requests (s\<lparr>selectedItem := v\<rparr>))"
| "sends (SetForecastDays n) s =
     (if n = forecastDays s then [] else reload_requests (s\<lparr>forecastDays := n\<rparr>))"
| "sends (SetModelType m) s =
     (if m = modelType s then [] else reload_requests (s\<lparr>modelType := m\<rparr>))"
| "sends UpdateForecast s =
     (if loading s \<or> selectedItem s = [] then []
      else [GetForecast (selectedItem s) (forecastDays s) (modelType s)])"
| "sends (Settled q r) s = []"

fun run :: "event list \<Rightarrow> State \<Rightarrow> State" where
  "run [] s = s"
| "run (e # es) s = run es (step e s)"

fun sent :: "event list \<Rightarrow> State \<Rightarrow> request list" where
  "sent [] s = []"
| "sent (e # es) s = sends e s @ sent es (step e s)"

text \<open>
  What the render shows (lines 264-273 and 331-365): the error card when \<^verbatim>\<open>error\<close> is
  truthy, and the two chart cards when \<^verbatim>\<open>forecastData\<close> is truthy, each with the
  props its builder returned (\<^verbatim>\<open>null\<close> spreads to no props).
\<close>

definition error_card :: "State \<Rightarrow> string option" where
  "error_card s = (case error s of None \<Rightarrow> None | Some m \<Rightarrow> if m = [] then None else Some m)"

definition chart_cards :: "State \<Rightarrow> js_error + (chart option \<times> chart option) option" where
  "chart_cards s =
     (if truthy (forecastData s)
      then and_then (createForecastChart (forecastData s) (selectedItem s)) (\<lambda>demand.
           and_then (createPriceChart (forecastData s) (selectedItem s)) (\<lambda>price.
             Inr (Some (demand, price))))
      else Inr None)"

text \<open>
  The state variable each kind of request writes, and the payload of the last request of
  a kind that settled with a response.
\<close>

datatype endpoint = Forecast | CostAnalysis | Metrics

fun endpoint_of :: "request \<Rightarrow> endpoint" where
  "endpoint_of (GetForecast i d m) = Forecast"
| "endpoint_of (GetCostAnalysis i) = CostAnalysis"
| "endpoint_of (GetMetrics i m) = Metrics"

fun slot :: "endpoint \<Rightarrow> State \<Rightarrow> jsval" where
  "slot Forecast s = forecastData s"
| "slot CostAnalysis s = costAnalysis s"
| "slot Metrics s = metrics s"

fun delivered :: "endpoint \<Rightarrow> event \<Rightarrow> jsval option" where
  "delivered k (Settled q (Resolved v)) = (if endpoint_of q = k then Some v else None)"
| "delivered k e = None"

fun last_data :: "endpoint \<Rightarrow> event list \<Rightarrow> jsval option" where
  "last_data k [] = None"
| "last_data k (e # es) =
     (case last_data k es of Some w \<Rightarrow> Some w | None \<Rightarrow> delivered k e)"

text \<open>The x and y sequences of the traces of a chart, when a builder returned one.\<close>

definition traces_of :: "js_error + chart option \<Rightarrow> (jsval list \<times> jsval list) list option" where
  "traces_of r =
     (case r of
        Inr (Some c) \<Rightarrow> Some (map (\<lambda>t. (trace_x t, trace_y t)) (chart_data c))
      | _ \<Rightarrow> None)"

text \<open>A forecast body with one point, for the scenarios below.\<close>

definition one_point :: "string \<Rightarrow> real \<Rightarrow> jsval" where
  "one_point model_type demand =
     Obj [(''model_type'', Str model_type), (''forecast_days'', Num 90),
          (''forecasts'',
             Arr [Obj [(''date'', Str ''2025-01-01''), (''demand_forecast'', Num demand),
                       (''demand_lower'', Num (demand - 5)),
                       (''demand_upper'', Num (demand + 5)),
                       (''price_forecast'', Num 2), (''price_lower'', Num 1),
                       (''price_upper'', Num 3)]]),
          (''mae_demand'', Num 4), (''mae_price'', Num 3)]"

section \<open>Load script\<close>

text \<open>
  The k6 script (todo.md, lines 41-168). A response is what the script reads of it: the
  status, k6's own timing of the request, and the outcome of \<^verbatim>\<open>JSON.parse(r.body)\<close>
  (\<open>None\<close> when it throws; the parser itself is not modelled).
\<close>

record response =
  status :: int
  timings_duration :: real
  body_json :: "jsval option"

text \<open>
  \<^verbatim>\<open>v > c\<close> for a number \<open>c\<close> converts \<open>v\<close> to a number and is false for NaN. The
  conversion of a string, an array or an object follows ECMAScript's number grammar
  and \<^verbatim>\<open>ToPrimitive\<close>, which are not part of this code: it is the parameter \<open>cv\<close>,
  with \<open>None\<close> for NaN and for a conversion that throws (both make the check below
  false).
\<close>

fun toNumber :: "(jsval \<Rightarrow> real option) \<Rightarrow> jsval \<Rightarrow> real option" where
  "toNumber cv Undefined = None"
| "toNumber cv Null = Some 0"
| "toNumber cv (Bool b) = Some (if b then 1 else 0)"
| "toNumber cv (Num n) = Some n"
| "toNumber cv v = cv v"

definition js_gt :: "(jsval \<Rightarrow> real option) \<Rightarrow> jsval \<Rightarrow> real \<Rightarrow> bool" where
  "js_gt cv v c = (case toNumber cv v of None \<Rightarrow> False | Some n \<Rightarrow> n > c)"

text \<open>The four checks of the forecast response (lines 89-108), each with its try/catch.\<close>

definition status_is_200 :: "response \<Rightarrow> bool" where
  "status_is_200 r = (status r = 200)"

definition response_time_lt_300ms :: "response \<Rightarrow> bool" where
  "response_time_lt_300ms r = (timings_duration r < 300)"

definition response_has_forecasts :: "(jsval \<Rightarrow> real option) \<Rightarrow> response \<Rightarrow> bool" where
  "response_has_forecasts cv r =
     (case body_json r of
        None \<Rightarrow> False
      | Some data \<Rightarrow>
          (case getProp data ''forecasts'' of
             Inl e \<Rightarrow> False
           | Inr forecasts \<Rightarrow>
               truthy forecasts \<and>
               (case getProp forecasts ''length'' of
                  Inl e \<Rightarrow> False
                | Inr n \<Rightarrow> js_gt cv n 0)))"

definition mae_is_reasonable :: "response \<Rightarrow> bool" where
  "mae_is_reasonable r =
     (case body_json r of
        None \<Rightarrow> False
      | Some data \<Rightarrow>
          (case getProp data ''mae_demand'' of
             Inl e \<Rightarrow> False
           | Inr mae_demand \<Rightarrow>
               mae_demand \<noteq> Null \<and>
               (case getProp data ''mae_price'' of
                  Inl e \<Rightarrow> False
                | Inr mae_price \<Rightarrow> mae_price \<noteq> Null)))"

text \<open>
  The aggregates of a run: the samples added to the custom metrics \<^verbatim>\<open>errors\<close> and
  \<^verbatim>\<open>response_time\<close> (lines 46-47), and the tally k6 keeps of every named check.
\<close>

record aggregates =
  errorRate :: "nat list"
  responseTime :: "int list"
  checks :: "(string \<times> bool) list"

text \<open>
  k6's \<^verbatim>\<open>check(val, sets)\<close> runs every named check on \<open>val\<close>, records each outcome,
  and returns true when all of them passed.
\<close>

definition check :: "response \<Rightarrow> (string \<times> (response \<Rightarrow> bool)) list \<Rightarrow> aggregates
    \<Rightarrow> bool \<times> aggregates" where
  "check val sets agg =
     (let outcomes = map (\<lambda>(name, f). (name, f val)) sets
      in (list_all snd outcomes, agg\<lparr>checks := checks agg @ outcomes\<rparr>))"

text \<open>
  The test data (lines 68-70) and a random pick,
  \<^verbatim>\<open>xs[Math.floor(Math.random() * xs.length)]\<close>; \<open>None\<close> is \<^verbatim>\<open>undefined\<close>, which
  a draw outside of [0, 1) would give.
\<close>

definition k6_items :: "string list" where
  "k6_items = [''ITEM001'', ''ITEM002'', ''ITEM003'', ''ITEM004'', ''ITEM005'']"

definition k6_models :: "string list" where
  "k6_models = [''prophet'', ''arima'']"

definition k6_forecastDays :: "nat list" where
  "k6_forecastDays = [30, 60, 90]"

definition pick :: "'a list \<Rightarrow> real \<Rightarrow> 'a option" where
  "pick xs r =
     (let i = \<lfloor>r * real (length xs)\<rfloor>
      in if 0 \<le> i \<and> i < int (length xs) then Some (xs ! nat i) else None)"

datatype url =
    ForecastUrl "string option" "nat option" "string option"
  | MetricsUrl "string option" "string option"
  | CostAnalysisUrl "string option"
  | HealthUrl

text \<open>
  What one iteration takes from outside: the six \<^verbatim>\<open>Math.random()\<close> draws in the
  order they are made, the server's answer to each URL, and the two clock readings.
\<close>

record iteration_env =
  rnd_item :: real
  rnd_model :: real
  rnd_days :: real
  rnd_metrics :: real
  rnd_cost :: real
  rnd_health :: real
  http_get :: "url \<Rightarrow> response"
  startTime :: int
  endTime :: int

text \<open>The default function (lines 72-143); the final sleep changes no aggregate.\<close>

definition default_function :: "(jsval \<Rightarrow> real option) \<Rightarrow> iteration_env \<Rightarrow> aggregates
    \<Rightarrow> aggregates" where
  "default_function cv env agg =
     (let item = pick k6_items (rnd_item env);
          model = pick k6_models (rnd_model env);
          days = pick k6_forecastDays (rnd_days env);
          response = http_get env (ForecastUrl item days model);
          duration = endTime env - startTime env;
          agg1 = agg\<lparr>responseTime := responseTime agg @ [duration]\<rparr>;
          (success, agg2) = check response
            [(''status is 200'', status_is_200),
             (''response time < 300ms'', response_time_lt_300ms),
             (''response has forecasts'', response_has_forecasts cv),
             (''MAE is reasonable'', mae_is_reasonable)] agg1;
          agg3 = (if \<not> success then agg2\<lparr>errorRate := errorRate agg2 @ [1]\<rparr>
                  else agg2\<lparr>errorRate := errorRate agg2 @ [0]\<rparr>);
          agg4 = (if rnd_metrics env < 0.1
                  then snd (check (http_get env (MetricsUrl item model))
                         [(''metrics status is 200'', status_is_200)] agg3)
                  else agg3);
          agg5 = (if rnd_cost env < 0.05
                  then snd (check (http_get env (CostAnalysisUrl item))
                         [(''cost analysis status is 200'', status_is_200)] agg4)
                  else agg4);
          agg6 = (if rnd_health env < 0.02
                  then snd (check (http_get env HealthUrl)
                         [(''health status is 200'', status_is_200)] agg5)
                  else agg5)
      in agg6)"

text \<open>
  \<^verbatim>\<open>handleSummary\<close> (lines 145-168) reads these values of k6's end-of-run data and
  returns the data as the JSON artifact and a text. The text is kept as the values it
  interpolates, before \<^verbatim>\<open>toFixed(2)\<close>. \<^verbatim>\<open>x || 0\<close> is 0 when \<open>x\<close> is 0 and \<open>x\<close>
  otherwise.
\<close>

record summary_data =
  testRunDurationMs :: real
  vus_max :: real
  http_reqs_count :: real
  http_reqs_rate :: real
  http_req_failed_rate :: real
  http_req_duration_avg :: real
  http_req_duration_p95 :: real
  http_req_duration_p99 :: real

record summary_text =
  line_duration :: real
  line_vus :: real
  line_requests :: real
  line_request_rate :: real
  line_failed_requests :: real
  line_average :: real
  line_p95 :: real
  line_p99 :: real
  threshold_p95 :: string
  threshold_error_rate :: string
  test_verdict :: string

definition or_zero :: "real \<Rightarrow> real" where
  "or_zero x = (if x = 0 then 0 else x)"

definition handleSummary :: "summary_data \<Rightarrow> summary_data \<times> summary_text" where
  "handleSummary d =
     (d,
      \<lparr>line_duration = testRunDurationMs d,
       line_vus = vus_max d,
       line_requests = http_reqs_count d,
       line_request_rate = or_zero (http_reqs_rate d),
       line_failed_requests = or_zero (http_req_failed_rate d * 100),
       line_average = or_zero (http_req_duration_avg d),
       line_p95 = or_zero (http_req_duration_p95 d),
       line_p99 = or_zero (http_req_duration_p99 d),
       threshold_p95 = (if or_zero (http_req_duration_p95 d) < 300 then ''PASS'' else ''FAIL''),
       threshold_error_rate =
         (if or_zero (http_req_failed_rate d * 100) < 10 then ''PASS'' else ''FAIL''),
       test_verdict =
         (if http_req_duration_p95 d < 300 \<and> http_req_failed_rate d < 0.1
          then ''PASSED'' else ''FAILED'')\<rparr>)"

section \<open>Scenarios and the specification's own predicates\<close>

text \<open>
  Two selections in quick succession whose forecast responses arrive in the opposite
  order, and a second selection whose forecast request fails after the first one's
  succeeded.
\<close>

definition race :: "event list" where
  "race =
     [SelectItem ''ITEM001'', SelectItem ''ITEM002'',
      Settled (GetForecast ''ITEM002'' 90 ''prophet'') (Resolved (one_point ''prophet'' 200)),
      Settled (GetForecast ''ITEM001'' 90 ''prophet'') (Resolved (one_point ''prophet'' 100))]"

definition failed_second_cycle :: "event list" where
  "failed_second_cycle =
     [SelectItem ''ITEM001'',
      Settled (GetForecast ''ITEM001'' 90 ''prophet'') (Resolved (one_point ''prophet'' 100)),
      SelectItem ''ITEM002'',
      Settled (GetForecast ''ITEM002'' 90 ''prophet'') Rejected]"

text \<open>
  The specification's rule for forecasts, last key wins: once the response to the
  forecast request sent last has arrived, its payload is what the state holds.
  \<open>response_to q evs\<close> is the payload of the last response to request \<open>q\<close>.
\<close>

fun answers :: "request \<Rightarrow> event \<Rightarrow> jsval option" where
  "answers q (Settled q' (Resolved v)) = (if q' = q then Some v else None)"
| "answers q e = None"

fun response_to :: "request \<Rightarrow> event list \<Rightarrow> jsval option" where
  "response_to q [] = None"
| "response_to q (e # es) =
     (case response_to q es of Some w \<Rightarrow> Some w | None \<Rightarrow> answers q e)"

definition latest_forecast_request :: "event list \<Rightarrow> State \<Rightarrow> request option" where
  "latest_forecast_request evs s =
     (case filter (\<lambda>q. endpoint_of q = Forecast) (sent evs s) of
        [] \<Rightarrow> None
      | q # qs \<Rightarrow> Some (last (q # qs)))"

definition spec_last_key_wins :: "event list \<Rightarrow> State \<Rightarrow> bool" where
  "spec_last_key_wins evs s =
     (case latest_forecast_request evs s of
        None \<Rightarrow> True
      | Some q \<Rightarrow>
          (case response_to q evs of
             None \<Rightarrow> True
           | Some v \<Rightarrow> forecastData (run evs s) = v))"

text \<open>
  The error slot and the two optional sections once the given requests of a reload have
  settled, in the given order.
\<close>

definition view_after :: "event list \<Rightarrow> State \<Rightarrow> string option \<times> jsval \<times> jsval" where
  "view_after evs s =
     (let s' = run evs (loadForecastData_call s) in (error s', costAnalysis s', metrics s'))"

text \<open>The lengths of the x and y sequences of each trace.\<close>

definition trace_lengths :: "js_error + chart option \<Rightarrow> (nat \<times> nat) list option" where
  "trace_lengths r = map_option (map (\<lambda>(xs, ys). (length xs, length ys))) (traces_of r)"

text \<open>
  The specification's condition for recording the primary request as a success: the
  status is success and the parsed body contains a non-empty forecast sequence.
\<close>

definition spec_success :: "(jsval \<Rightarrow> real option) \<Rightarrow> response \<Rightarrow> bool" where
  "spec_success cv r = (status_is_200 r \<and> response_has_forecasts cv r)"

text \<open>
  An iteration whose forecast request is answered with status 200 and a one-point
  forecast, after 400 ms.
\<close>

definition slow_ok :: response where
  "slow_ok = \<lparr>status = 200, timings_duration = 400,
     body_json = Some (one_point ''prophet'' 100)\<rparr>"

definition slow_env :: iteration_env where
  "slow_env = \<lparr>rnd_item = 0.5, rnd_model = 0.5, rnd_days = 0.5, rnd_metrics = 0.5,
     rnd_cost = 0.5, rnd_health = 0.5, http_get = (\<lambda>u. slow_ok), startTime = 1000,
     endTime = 1400\<rparr>"

definition no_aggregates :: aggregates where
  "no_aggregates = \<lparr>errorRate = [], responseTime = [], checks = []\<rparr>"

section \<open>Auxiliary facts\<close>

lemmas settle_defs = loadForecastData_settled_def loadCostAnalysis_settled_def
  loadMetrics_settled_def loadForecastData_call_def reload_def

lemma own_Cons: "own ((k, v) # fs) k = v"
  by (simp add: own_def)

lemma own_filter: "own (filter (\<lambda>p. fst p \<noteq> k) fs) k = Undefined"
  by (induction fs) (simp_all add: own_def)

lemma map_prop_Obj: "map_prop k (map Obj pts) = Inr (map (\<lambda>p. own p k) pts)"
  by (induction pts) simp_all

text \<open>A step writes a slot exactly when it delivers a payload for that slot.\<close>

lemma slot_step:
  "slot k (step e s) = (case delivered k e of None \<Rightarrow> slot k s | Some v \<Rightarrow> v)"
proof (cases e)
  case (Settled q r)
  then show ?thesis
    by (cases q; cases r; cases k) (simp_all add: settle_defs)
qed (cases k; simp add: settle_defs)+

lemma check_fst: "fst (check r sets agg) = list_all (\<lambda>(n, f). f r) sets"
  by (simp add: check_def Let_def list_all_iff split_beta)

lemma check_errorRate: "errorRate (snd (check r sets agg)) = errorRate agg"
  by (simp add: check_def Let_def)

lemma check_responseTime: "responseTime (snd (check r sets agg)) = responseTime agg"
  by (simp add: check_def Let_def)

lemma errorRate_default:
  "errorRate (default_function cv env agg) =
     errorRate agg @
       [let r = http_get env (ForecastUrl (pick k6_items (rnd_item env))
                  (pick k6_forecastDays (rnd_days env)) (pick k6_models (rnd_model env)))
        in if status_is_200 r \<and> response_time_lt_300ms r \<and> response_has_forecasts cv r
              \<and> mae_is_reasonable r
           then 0 else 1]"
  by (simp add: default_function_def Let_def split_beta check_errorRate check_fst)

lemma responseTime_default:
  "responseTime (default_function cv env agg) =
     responseTime agg @ [endTime env - startTime env]"
  by (simp add: default_function_def Let_def split_beta check_responseTime)

section \<open>Properties\<close>

subsection \<open>Fetch orchestration\<close>

text \<open>
  C1, as stated: after selections in rapid succession the committed view state belongs
  to the last selection requested, whatever the order of arrival. It fails on
  \<^const>\<open>race\<close>: both reloads were sent, ITEM002 is the selection and the last
  forecast requested, its response arrived first, and the forecast requested for ITEM001
  arrived last and is what the state holds.
\<close>

theorem stale_forecast_overwrites:
  "sent race initial =
     [GetForecast ''ITEM001'' 90 ''prophet'', GetCostAnalysis ''ITEM001'',
      GetMetrics ''ITEM001'' ''prophet'',
      GetForecast ''ITEM002'' 90 ''prophet'', GetCostAnalysis ''ITEM002'',
      GetMetrics ''ITEM002'' ''prophet'']
   \<and> selectedItem (run race initial) = ''ITEM002''
   \<and> latest_forecast_request race initial = Some (GetForecast ''ITEM002'' 90 ''prophet'')
   \<and> response_to (GetForecast ''ITEM002'' 90 ''prophet'') race = Some (one_point ''prophet'' 200)
   \<and> forecastData (run race initial) = one_point ''prophet'' 100
   \<and> \<not> spec_last_key_wins race initial"
  by (simp add: race_def initial_def reload_requests_def settle_defs one_point_def
      latest_forecast_request_def spec_last_key_wins_def)

text \<open>
  C1, amended: every response is committed when it arrives, whatever selection it was
  requested for, so after any sequence of events each of forecastData, costAnalysis and
  metrics holds the payload of the last response of its kind to arrive (and its old
  value when none arrived): the last arrival wins, not the last request.
\<close>

theorem last_arrival_wins:
  "slot k (run evs s) = (case last_data k evs of None \<Rightarrow> slot k s | Some v \<Rightarrow> v)"
proof (induction evs arbitrary: s)
  case Nil
  show ?case by simp
next
  case (Cons e es)
  show ?case
    by (simp add: Cons.IH slot_step split: option.splits)
qed

text \<open>
  C2, as stated: a failed forecast request sets the error and suppresses the charts of
  that cycle. It fails on \<^const>\<open>failed_second_cycle\<close>: the error card is shown, and
  the chart cards are shown too, drawn from the forecast of the earlier selection.
\<close>

theorem charts_shown_after_failure:
  "error_card (run failed_second_cycle initial) = Some ''Failed to load forecast data''
   \<and> selectedItem (run failed_second_cycle initial) = ''ITEM002''
   \<and> forecastData (run failed_second_cycle initial) = one_point ''prophet'' 100
   \<and> chart_cards (run failed_second_cycle initial) \<noteq> Inr None
   \<and> traces_of (createForecastChart (forecastData (run failed_second_cycle initial))
        (selectedItem (run failed_second_cycle initial))) =
       Some [([Str ''2025-01-01''], [Num 100]), ([Str ''2025-01-01''], [Num 105]),
             ([Str ''2025-01-01''], [Num 95])]"
  by (simp add: failed_second_cycle_def initial_def settle_defs one_point_def error_card_def
      chart_cards_def createForecastChart_def createPriceChart_def and_then_def own_def
      traces_of_def band_def)

text \<open>
  C2, amended: a failed forecast request sets the error message, which the error card
  shows, and leaves the chart cards as they were before the failure; no chart card is
  shown when no forecast was committed before, as in the first cycle.
\<close>

theorem forecast_failure_shows_error:
  "error_card (loadForecastData_settled Rejected s) = Some ''Failed to load forecast data''
   \<and> chart_cards (loadForecastData_settled Rejected s) = chart_cards s
   \<and> chart_cards (run [SelectItem i, Settled (GetForecast i d m) Rejected] initial) = Inr None"
  by (simp add: settle_defs error_card_def chart_cards_def initial_def)

text \<open>
  C3. When in one reload the forecast request fails and the cost-analysis and metrics
  requests succeed (each with a JSON object), then in each of the six orders of arrival
  the error is set and both optional sections hold their payloads. A failed optional
  request changes nothing, so it never sets the error: when the forecast succeeds and
  both optional requests fail, the error stays null.
\<close>

theorem forecast_fails_optionals_succeed:
  "view_after [Settled (GetForecast i d m) Rejected, Settled (GetCostAnalysis i) (Resolved (Obj c)),
               Settled (GetMetrics i m) (Resolved (Obj a))] s =
     (Some ''Failed to load forecast data'', Obj c, Obj a)
   \<and> view_after [Settled (GetForecast i d m) Rejected, Settled (GetMetrics i m) (Resolved (Obj a)),
               Settled (GetCostAnalysis i) (Resolved (Obj c))] s =
     (Some ''Failed to load forecast data'', Obj c, Obj a)
   \<and> view_after [Settled (GetCostAnalysis i) (Resolved (Obj c)), Settled (GetForecast i d m) Rejected,
               Settled (GetMetrics i m) (Resolved (Obj a))] s =
     (Some ''Failed to load forecast data'', Obj c, Obj a)
   \<and> view_after [Settled (GetCostAnalysis i) (Resolved (Obj c)),
               Settled (GetMetrics i m) (Resolved (Obj a)), Settled (GetForecast i d m) Rejected] s =
     (Some ''Failed to load forecast data'', Obj c, Obj a)
   \<and> view_after [Settled (GetMetrics i m) (Resolved (Obj a)), Settled (GetForecast i d m) Rejected,
               Settled (GetCostAnalysis i) (Resolved (Obj c))] s =
     (Some ''Failed to load forecast data'', Obj c, Obj a)
   \<and> view_after [Settled (GetMetrics i m) (Resolved (Obj a)),
               Settled (GetCostAnalysis i) (Resolved (Obj c)), Settled (GetForecast i d m) Rejected] s =
     (Some ''Failed to load forecast data'', Obj c, Obj a)
   \<and> Obj c \<noteq> Null \<and> Obj c \<noteq> Undefined \<and> Obj a \<noteq> Null \<and> Obj a \<noteq> Undefined
   \<and> step (Settled (GetCostAnalysis i) Rejected) s = s
   \<and> step (Settled (GetMetrics i m) Rejected) s = s
   \<and> fst (view_after [Settled (GetForecast i d m) (Resolved v), Settled (GetCostAnalysis i) Rejected,
               Settled (GetMetrics i m) Rejected] s) = None"
  by (simp add: view_after_def Let_def settle_defs)

text \<open>
  C9. A failed forecast request sets the error and leaves forecastData, costAnalysis
  and metrics as they were; so after a new selection whose forecast request fails, the
  three still hold what was fetched for the earlier selection.
\<close>

theorem forecast_failure_keeps_results:
  "forecastData (loadForecastData_settled Rejected s) = forecastData s
   \<and> costAnalysis (loadForecastData_settled Rejected s) = costAnalysis s
   \<and> metrics (loadForecastData_settled Rejected s) = metrics s
   \<and> error (loadForecastData_settled Rejected s) = Some ''Failed to load forecast data''
   \<and> forecastData (run [SelectItem v, Settled (GetForecast v d m) Rejected] s) = forecastData s
   \<and> costAnalysis (run [SelectItem v, Settled (GetForecast v d m) Rejected] s) = costAnalysis s
   \<and> metrics (run [SelectItem v, Settled (GetForecast v d m) Rejected] s) = metrics s"
  by (simp add: settle_defs)

subsection \<open>Chart series and badge\<close>

text \<open>
  C6. For every numeric mae the badge is Excellent exactly when mae is at most 5,
  Good exactly when mae is above 5 and at most 10, and Needs Improvement exactly when
  mae is above 10; the boundary values belong to the lower tier, so 5 is Excellent and
  10 is Good (and 5.01 is Good, 10.01 is Needs Improvement).
\<close>

theorem getAccuracyBadge_tiers:
  "(badge_tier (getAccuracyBadge mae) = Excellent \<longleftrightarrow> mae \<le> 5)
   \<and> (badge_tier (getAccuracyBadge mae) = Good \<longleftrightarrow> 5 < mae \<and> mae \<le> 10)
   \<and> (badge_tier (getAccuracyBadge mae) = Needs_Improvement \<longleftrightarrow> mae > 10)
   \<and> badge_tier (getAccuracyBadge 5) = Excellent
   \<and> badge_tier (getAccuracyBadge 5.01) = Good
   \<and> badge_tier (getAccuracyBadge 10) = Good
   \<and> badge_tier (getAccuracyBadge 10.01) = Needs_Improvement"
  by (simp add: getAccuracyBadge_def)

text \<open>
  C7, as stated: the series builder never throws and returns an empty series when the
  response lacks the expected fields. It fails: a response without \<^verbatim>\<open>forecasts\<close>
  gives \<^verbatim>\<open>null\<close>, not a series, and a \<^verbatim>\<open>forecasts\<close> that holds a \<^verbatim>\<open>null\<close> point
  or is not an array makes both builders throw.
\<close>

theorem chart_builder_null_or_throws:
  "createForecastChart (Obj []) ''ITEM001'' = Inr None
   \<and> createPriceChart (Obj []) ''ITEM001'' = Inr None
   \<and> createForecastChart (Obj [(''forecasts'', Arr [Null])]) ''ITEM001'' = Inl TypeError
   \<and> createPriceChart (Obj [(''forecasts'', Arr [Null])]) ''ITEM001'' = Inl TypeError
   \<and> createForecastChart (Obj [(''forecasts'', Str ''none'')]) ''ITEM001'' = Inl TypeError"
  by (simp add: createForecastChart_def createPriceChart_def and_then_def own_def)

text \<open>
  C7, amended: for both measures, the builder returns \<^verbatim>\<open>null\<close> (no chart, and no
  exception) on a \<^verbatim>\<open>null\<close> response and on a response object without
  \<^verbatim>\<open>forecasts\<close> or with a \<^verbatim>\<open>null\<close> one; on an empty \<^verbatim>\<open>forecasts\<close> array it returns
  three traces whose x and y sequences are empty; and on an array of point objects,
  whatever fields they have, it does not throw.
\<close>

theorem chart_builder_degrades:
  "createForecastChart Null i = Inr None \<and> createPriceChart Null i = Inr None
   \<and> createForecastChart (Obj (filter (\<lambda>p. fst p \<noteq> ''forecasts'') fs)) i = Inr None
   \<and> createPriceChart (Obj (filter (\<lambda>p. fst p \<noteq> ''forecasts'') fs)) i = Inr None
   \<and> createForecastChart (Obj ((''forecasts'', Null) # fs)) i = Inr None
   \<and> createPriceChart (Obj ((''forecasts'', Null) # fs)) i = Inr None
   \<and> traces_of (createForecastChart (Obj ((''forecasts'', Arr []) # fs)) i) =
       Some [([], []), ([], []), ([], [])]
   \<and> traces_of (createPriceChart (Obj ((''forecasts'', Arr []) # fs)) i) =
       Some [([], []), ([], []), ([], [])]
   \<and> \<not> isl (createForecastChart (Obj ((''forecasts'', Arr (map Obj pts)) # fs)) i)
   \<and> \<not> isl (createPriceChart (Obj ((''forecasts'', Arr (map Obj pts)) # fs)) i)"
  by (simp add: createForecastChart_def createPriceChart_def and_then_def own_Cons own_filter
      traces_of_def band_def map_prop_Obj)

text \<open>
  C8. For every sequence of points, the three traces of the demand chart and of the
  price chart (centre, upper bound, lower bound) each list the dates of the points as x
  and the measure's field of the points as y, point by point in the order of the input;
  so every x and y sequence has the length of the input.
\<close>

theorem chart_builder_preserves_points:
  "traces_of (createForecastChart (Obj ((''forecasts'', Arr (map Obj pts)) # fs)) i) =
     Some [(map (\<lambda>p. own p ''date'') pts, map (\<lambda>p. own p ''demand_forecast'') pts),
           (map (\<lambda>p. own p ''date'') pts, map (\<lambda>p. own p ''demand_upper'') pts),
           (map (\<lambda>p. own p ''date'') pts, map (\<lambda>p. own p ''demand_lower'') pts)]
   \<and> traces_of (createPriceChart (Obj ((''forecasts'', Arr (map Obj pts)) # fs)) i) =
     Some [(map (\<lambda>p. own p ''date'') pts, map (\<lambda>p. own p ''price_forecast'') pts),
           (map (\<lambda>p. own p ''date'') pts, map (\<lambda>p. own p ''price_upper'') pts),
           (map (\<lambda>p. own p ''date'') pts, map (\<lambda>p. own p ''price_lower'') pts)]
   \<and> trace_lengths (createForecastChart (Obj ((''forecasts'', Arr (map Obj pts)) # fs)) i) =
     Some [(length pts, length pts), (length pts, length pts), (length pts, length pts)]
   \<and> trace_lengths (createPriceChart (Obj ((''forecasts'', Arr (map Obj pts)) # fs)) i) =
     Some [(length pts, length pts), (length pts, length pts), (length pts, length pts)]"
  by (simp add: createForecastChart_def createPriceChart_def and_then_def own_Cons
      traces_of_def trace_lengths_def band_def map_prop_Obj)

subsection \<open>Load script\<close>

text \<open>
  C4, as stated: the primary request is recorded as a success exactly when the status
  is success and the body has a non-empty forecast sequence. It fails on
  \<^const>\<open>slow_env\<close>: the response has status 200 and one forecast point, and the
  iteration adds 1 (a failure) to the error rate, because the request took 400 ms.
\<close>

theorem slow_success_recorded_as_error:
  "spec_success (\<lambda>v. None) (http_get slow_env
      (ForecastUrl (pick k6_items (rnd_item slow_env)) (pick k6_forecastDays (rnd_days slow_env))
         (pick k6_models (rnd_model slow_env))))
   \<and> errorRate (default_function (\<lambda>v. None) slow_env no_aggregates) = [1]"
  by (simp add: errorRate_default spec_success_def slow_ok_def slow_env_def no_aggregates_def
      status_is_200_def response_has_forecasts_def response_time_lt_300ms_def one_point_def
      own_def js_gt_def)

text \<open>
  C4, amended: the primary request is recorded as a success (a 0 is added to the error
  rate, a 1 otherwise) exactly when all four checks pass: the status is 200, k6 timed
  the request under 300 ms, the parsed body has forecasts of length above 0, and neither
  mae_demand nor mae_price of the body is null. For a body whose forecasts is an array,
  the third check says that the array is not empty.
\<close>

theorem primary_success_is_all_four_checks:
  "(last (errorRate (default_function cv env agg)) = 0 \<longleftrightarrow>
      (let r = http_get env (ForecastUrl (pick k6_items (rnd_item env))
                 (pick k6_forecastDays (rnd_days env)) (pick k6_models (rnd_model env)))
       in status_is_200 r \<and> response_time_lt_300ms r \<and> response_has_forecasts cv r
            \<and> mae_is_reasonable r))
   \<and> (last (errorRate (default_function cv env agg)) = 1 \<longleftrightarrow>
      (let r = http_get env (ForecastUrl (pick k6_items (rnd_item env))
                 (pick k6_forecastDays (rnd_days env)) (pick k6_models (rnd_model env)))
       in \<not> (status_is_200 r \<and> response_time_lt_300ms r \<and> response_has_forecasts cv r
            \<and> mae_is_reasonable r)))
   \<and> (response_has_forecasts cv (r\<lparr>body_json := Some (Obj ((''forecasts'', Arr xs) # fs))\<rparr>)
        \<longleftrightarrow> xs \<noteq> [])"
  by (simp add: errorRate_default Let_def response_has_forecasts_def own_Cons js_gt_def)

text \<open>
  C5. The summary gives each threshold its own verdict, PASS or FAIL: the p95 line
  passes exactly when p95 is under 300 ms, the error-rate line exactly when the failed
  rate in percent is under 10. The overall verdict is PASSED exactly when p95 is under
  300 ms and the rate of failed requests is under 0.1, and FAILED otherwise. The data
  is returned unchanged as the artifact.
\<close>

theorem handleSummary_verdicts:
  "(threshold_p95 (snd (handleSummary d)) = ''PASS'' \<longleftrightarrow> http_req_duration_p95 d < 300)
   \<and> (threshold_p95 (snd (handleSummary d)) = ''FAIL'' \<longleftrightarrow> \<not> http_req_duration_p95 d < 300)
   \<and> (threshold_error_rate (snd (handleSummary d)) = ''PASS''
        \<longleftrightarrow> http_req_failed_rate d * 100 < 10)
   \<and> (threshold_error_rate (snd (handleSummary d)) = ''FAIL''
        \<longleftrightarrow> \<not> http_req_failed_rate d * 100 < 10)
   \<and> (test_verdict (snd (handleSummary d)) = ''PASSED''
        \<longleftrightarrow> http_req_duration_p95 d < 300 \<and> http_req_failed_rate d < 0.1)
   \<and> (test_verdict (snd (handleSummary d)) = ''FAILED''
        \<longleftrightarrow> \<not> (http_req_duration_p95 d < 300 \<and> http_req_failed_rate d < 0.1))
   \<and> fst (handleSummary d) = d"
  by (auto simp add: handleSummary_def or_zero_def)

text \<open>
  C10. Every iteration adds exactly one sample to responseTime and exactly one to
  errorRate, after the samples already there, whichever probes run: the two aggregates
  do not depend on the three probe draws, and a check changes neither of them.
\<close>

theorem iteration_adds_one_sample_each:
  "length (responseTime (default_function cv env agg)) = length (responseTime agg) + 1
   \<and> length (errorRate (default_function cv env agg)) = length (errorRate agg) + 1
   \<and> butlast (responseTime (default_function cv env agg)) = responseTime agg
   \<and> butlast (errorRate (default_function cv env agg)) = errorRate agg
   \<and> responseTime (default_function cv
        (env\<lparr>rnd_metrics := a, rnd_cost := b, rnd_health := c\<rparr>) agg) =
       responseTime (default_function cv env agg)
   \<and> errorRate (default_function cv
        (env\<lparr>rnd_metrics := a, rnd_cost := b, rnd_health := c\<rparr>) agg) =
       errorRate (default_function cv env agg)
   \<and> responseTime (snd (check r sets agg)) = responseTime agg
   \<and> errorRate (snd (check r sets agg)) = errorRate agg"
  by (simp add: errorRate_default responseTime_default check_errorRate check_responseTime)

end
